theory Spec2Isabelle
  imports Main
begin

section \<open>Data of the hcl and hclext packages, as the rule reads it\<close>

text \<open>
  \<open>hcl.Pos\<close> and \<open>hcl.Range\<close>. The rule never computes with positions, it only copies
  them, so Go's \<open>int\<close> fields are plain integers here. A field left out of a Go
  composite literal has its zero value.
\<close>

record hcl_Pos =
  Line :: int
  Column :: int
  Byte :: int

definition InitialPos :: hcl_Pos where
  \<comment> \<open>\<open>hcl.InitialPos\<close>, a constant of the hcl package: line 1, column 1, byte 0.\<close>
  "InitialPos = \<lparr>Line = 1, Column = 1, Byte = 0\<rparr>"

definition zero_Pos :: hcl_Pos where
  "zero_Pos = \<lparr>Line = 0, Column = 0, Byte = 0\<rparr>"

record hcl_Range =
  Filename :: string
  Start :: hcl_Pos
  End :: hcl_Pos

text \<open>
  \<open>hclext.Block\<close>, with the fields the rule reads: \<open>Type\<close>, \<open>Labels\<close>, \<open>Name\<close>
  (read by \<open>checkTerraformRemoteState\<close> only) and \<open>DefRange\<close>.
\<close>

record hclext_Block =
  Type :: string
  Labels :: "string list"
  Name :: string
  DefRange :: hcl_Range

text \<open>
  \<open>hclext.BlockSchema\<close>, \<open>hclext.BodySchema\<close> and \<open>hclext.BodyContent\<close>. The schema's
  own \<open>Type\<close> field is called \<open>BlockType\<close> here and the body schema's \<open>Blocks\<close> field
  \<open>BlockSchemas\<close>, since a record field is a constant of the whole theory.
\<close>

record hclext_BlockSchema =
  BlockType :: string
  LabelNames :: "string list"

record hclext_BodySchema =
  BlockSchemas :: "hclext_BlockSchema list"

record hclext_BodyContent =
  Blocks :: "hclext_Block list"

record hcl_File =
  Bytes :: string

text \<open>A non-nil Go \<open>error\<close> value.\<close>

datatype go_error = QueryError string

text \<open>
  \<open>tflint.Runner\<close>, the interface the rule is handed. \<open>GetFiles\<close> returns a
  \<open>map[string]*hcl.File\<close> or an error: a key may be missing, or present with a nil
  pointer (\<open>Some None\<close>). \<open>GetModuleContent\<close> is called with \<open>nil\<close> options at every
  call site, so only the schema is an argument; when it returns no error its content
  is not nil. \<open>EmitIssue\<close> is the list of issues threaded through the checks (see
  \<open>EmitIssue\<close> below).
\<close>

record Runner =
  GetFiles :: "go_error + (string \<rightharpoonup> hcl_File option)"
  GetModuleContent :: "hclext_BodySchema \<Rightarrow> go_error + hclext_BodyContent"

record Issue =
  Message :: string
  Location :: hcl_Range

definition EmitIssue :: "string \<Rightarrow> hcl_Range \<Rightarrow> Issue list \<Rightarrow> Issue list" where
  \<comment> \<open>The rule argument is always \<open>r\<close>; the error \<open>EmitIssue\<close> returns is dropped by every caller.\<close>
  "EmitIssue message location s = s @ [\<lparr>Message = message, Location = location\<rparr>]"

text \<open>
  How a call ends: it returns its \<open>error\<close> result (\<open>None\<close> is \<open>nil\<close>), or it panics.
  The only panic the rule can raise itself is an index out of range.
\<close>

datatype go_panic = IndexOutOfRange nat nat

datatype outcome = Returned "go_error option" | Panicked go_panic

section \<open>Go primitives\<close>

definition map_index :: "(string \<rightharpoonup> 'a option) \<Rightarrow> string \<Rightarrow> 'a option" where
  \<comment> \<open>\<open>files[name]\<close>: the zero value, a nil pointer, when the key is missing.\<close>
  "map_index m k = (case m k of None \<Rightarrow> None | Some p \<Rightarrow> p)"

definition slice_index :: "'a list \<Rightarrow> nat \<Rightarrow> go_panic + 'a" where
  \<comment> \<open>\<open>xs[i]\<close>: a run-time panic when \<open>i\<close> is out of range.\<close>
  "slice_index xs i = (if i < length xs then Inr (xs ! i) else Inl (IndexOutOfRange i (length xs)))"

text \<open>
  The verb \<open>%q\<close> of \<open>fmt.Sprintf\<close> on a string is \<open>strconv.Quote\<close>, a function of
  Go's library driven by its tables of printable runes. It is not written out: every
  function below that formats a label takes it as its first argument, \<open>Quote\<close>, and
  what is proved holds whatever that function is. The verb \<open>%s\<close> copies its
  argument.
\<close>

section \<open>The rule\<close>

definition EXPECTED_FILES :: "string list" where
  "EXPECTED_FILES = [''_init.tf'', ''_variables.tf'', ''_outputs.tf'', ''_locals.tf'']"

subsection \<open>checkFiles\<close>

fun checkFiles_loop :: "(string \<rightharpoonup> hcl_File option) \<Rightarrow> string list \<Rightarrow> Issue list \<Rightarrow> Issue list" where
  "checkFiles_loop files [] s = s"
| "checkFiles_loop files (name # names) s =
     (if map_index files name = None
      then checkFiles_loop files names
             (EmitIssue (''Module should include a '' @ name @ '' file.'')
                \<lparr>Filename = name, Start = InitialPos, End = zero_Pos\<rparr> s)
      else checkFiles_loop files names s)"

definition checkFiles :: "Runner \<Rightarrow> Issue list \<Rightarrow> outcome \<times> Issue list" where
  "checkFiles runner s =
     (case GetFiles runner of
        Inl err \<Rightarrow> (Returned (Some err), s)
      | Inr files \<Rightarrow> (Returned None, checkFiles_loop files EXPECTED_FILES s))"

subsection \<open>checkVariables\<close>

definition variable_schema :: hclext_BodySchema where
  "variable_schema = \<lparr>BlockSchemas = [\<lparr>BlockType = ''variable'', LabelNames = [''name'']\<rparr>]\<rparr>"

fun checkVariables_loop ::
  "(string \<Rightarrow> string) \<Rightarrow> hclext_Block list \<Rightarrow> Issue list \<Rightarrow> outcome \<times> Issue list" where
  "checkVariables_loop Quote [] s = (Returned None, s)"
| "checkVariables_loop Quote (variable # rest) s =
     (if Filename (DefRange variable) \<noteq> ''_variables.tf''
      then (case slice_index (Labels variable) 0 of
              Inl p \<Rightarrow> (Panicked p, s)
            | Inr label \<Rightarrow>
                checkVariables_loop Quote rest
                  (EmitIssue (''variable '' @ Quote label @ '' should be moved from ''
                                @ Filename (DefRange variable) @ '' to '' @ ''_variables.tf'')
                     (DefRange variable) s))
      else checkVariables_loop Quote rest s)"

definition checkVariables ::
  "(string \<Rightarrow> string) \<Rightarrow> Runner \<Rightarrow> Issue list \<Rightarrow> outcome \<times> Issue list" where
  "checkVariables Quote runner s =
     (case GetModuleContent runner variable_schema of
        Inl err \<Rightarrow> (Returned (Some err), s)
      | Inr content \<Rightarrow> checkVariables_loop Quote (Blocks content) s)"

subsection \<open>checkOutputs\<close>

definition output_schema :: hclext_BodySchema where
  "output_schema = \<lparr>BlockSchemas = [\<lparr>BlockType = ''output'', LabelNames = [''name'']\<rparr>]\<rparr>"

fun checkOutputs_loop ::
  "(string \<Rightarrow> string) \<Rightarrow> hclext_Block list \<Rightarrow> Issue list \<Rightarrow> outcome \<times> Issue list" where
  "checkOutputs_loop Quote [] s = (Returned None, s)"
| "checkOutputs_loop Quote (output # rest) s =
     (if Filename (DefRange output) \<noteq> ''_outputs.tf''
      then (case slice_index (Labels output) 0 of
              Inl p \<Rightarrow> (Panicked p, s)
            | Inr label \<Rightarrow>
                checkOutputs_loop Quote rest
                  (EmitIssue (''output '' @ Quote label @ '' should be moved from ''
                                @ Filename (DefRange output) @ '' to '' @ ''_outputs.tf'')
                     (DefRange output) s))
      else checkOutputs_loop Quote rest s)"

definition checkOutputs ::
  "(string \<Rightarrow> string) \<Rightarrow> Runner \<Rightarrow> Issue list \<Rightarrow> outcome \<times> Issue list" where
  "checkOutputs Quote runner s =
     (case GetModuleContent runner output_schema of
        Inl err \<Rightarrow> (Returned (Some err), s)
      | Inr content \<Rightarrow> checkOutputs_loop Quote (Blocks content) s)"

subsection \<open>checkProviders\<close>

definition provider_schema :: hclext_BodySchema where
  "provider_schema = \<lparr>BlockSchemas = [\<lparr>BlockType = ''provider'', LabelNames = [''name'']\<rparr>]\<rparr>"

fun checkProviders_loop ::
  "(string \<Rightarrow> string) \<Rightarrow> hclext_Block list \<Rightarrow> Issue list \<Rightarrow> outcome \<times> Issue list" where
  "checkProviders_loop Quote [] s = (Returned None, s)"
| "checkProviders_loop Quote (provider # rest) s =
     (if Filename (DefRange provider) \<noteq> ''_init.tf''
      then (case slice_index (Labels provider) 0 of
              Inl p \<Rightarrow> (Panicked p, s)
            | Inr label \<Rightarrow>
                checkProviders_loop Quote rest
                  (EmitIssue (''provider '' @ Quote label @ '' should be moved from ''
                                @ Filename (DefRange provider) @ '' to '' @ ''_init.tf'')
                     (DefRange provider) s))
      else checkProviders_loop Quote rest s)"

definition checkProviders ::
  "(string \<Rightarrow> string) \<Rightarrow> Runner \<Rightarrow> Issue list \<Rightarrow> outcome \<times> Issue list" where
  "checkProviders Quote runner s =
     (case GetModuleContent runner provider_schema of
        Inl err \<Rightarrow> (Returned (Some err), s)
      | Inr content \<Rightarrow> checkProviders_loop Quote (Blocks content) s)"

subsection \<open>checkTerraformBlock\<close>

definition terraform_schema :: hclext_BodySchema where
  \<comment> \<open>No \<open>LabelNames\<close> in the literal: the zero value, a nil slice.\<close>
  "terraform_schema = \<lparr>BlockSchemas = [\<lparr>BlockType = ''terraform'', LabelNames = []\<rparr>]\<rparr>"

fun checkTerraformBlock_loop ::
  "(string \<Rightarrow> string) \<Rightarrow> hclext_Block list \<Rightarrow> Issue list \<Rightarrow> outcome \<times> Issue list" where
  "checkTerraformBlock_loop Quote [] s = (Returned None, s)"
| "checkTerraformBlock_loop Quote (terraformBlock # rest) s =
     (if Filename (DefRange terraformBlock) \<noteq> ''_init.tf''
      then (case slice_index (Labels terraformBlock) 0 of
              Inl p \<Rightarrow> (Panicked p, s)
            | Inr label \<Rightarrow>
                checkTerraformBlock_loop Quote rest
                  (EmitIssue (''terraform block '' @ Quote label @ '' should be moved from ''
                                @ Filename (DefRange terraformBlock) @ '' to '' @ ''_init.tf'')
                     (DefRange terraformBlock) s))
      else checkTerraformBlock_loop Quote rest s)"

definition checkTerraformBlock ::
  "(string \<Rightarrow> string) \<Rightarrow> Runner \<Rightarrow> Issue list \<Rightarrow> outcome \<times> Issue list" where
  "checkTerraformBlock Quote runner s =
     (case GetModuleContent runner terraform_schema of
        Inl err \<Rightarrow> (Returned (Some err), s)
      | Inr content \<Rightarrow> checkTerraformBlock_loop Quote (Blocks content) s)"

subsection \<open>checkLocals\<close>

definition locals_schema :: hclext_BodySchema where
  "locals_schema = \<lparr>BlockSchemas = [\<lparr>BlockType = ''locals'', LabelNames = []\<rparr>]\<rparr>"

fun checkLocals_loop ::
  "(string \<Rightarrow> string) \<Rightarrow> hclext_Block list \<Rightarrow> Issue list \<Rightarrow> outcome \<times> Issue list" where
  "checkLocals_loop Quote [] s = (Returned None, s)"
| "checkLocals_loop Quote (locals # rest) s =
     (if Filename (DefRange locals) \<noteq> ''_init.tf''
      then (case slice_index (Labels locals) 0 of
              Inl p \<Rightarrow> (Panicked p, s)
            | Inr label \<Rightarrow>
                checkLocals_loop Quote rest
                  (EmitIssue (''locals block '' @ Quote label @ '' should be moved from ''
                                @ Filename (DefRange locals) @ '' to '' @ ''_init.tf'')
                     (DefRange locals) s))
      else checkLocals_loop Quote rest s)"

definition checkLocals ::
  "(string \<Rightarrow> string) \<Rightarrow> Runner \<Rightarrow> Issue list \<Rightarrow> outcome \<times> Issue list" where
  "checkLocals Quote runner s =
     (case GetModuleContent runner locals_schema of
        Inl err \<Rightarrow> (Returned (Some err), s)
      | Inr content \<Rightarrow> checkLocals_loop Quote (Blocks content) s)"

subsection \<open>checkTerraformRemoteState\<close>

definition data_schema :: hclext_BodySchema where
  "data_schema = \<lparr>BlockSchemas = [\<lparr>BlockType = ''data'', LabelNames = [''name'']\<rparr>]\<rparr>"

fun checkTerraformRemoteState_loop ::
  "(string \<Rightarrow> string) \<Rightarrow> hclext_Block list \<Rightarrow> Issue list \<Rightarrow> outcome \<times> Issue list" where
  "checkTerraformRemoteState_loop Quote [] s = (Returned None, s)"
| "checkTerraformRemoteState_loop Quote (data # rest) s =
     (if Filename (DefRange data) \<noteq> ''_init.tf''
      then (if Type data = ''terraform_remote_state''
            then checkTerraformRemoteState_loop Quote rest
                   (EmitIssue (''data terraform_remote_state '' @ Quote (Name data)
                                 @ '' should be moved from '' @ Filename (DefRange data)
                                 @ '' to '' @ ''_init.tf'')
                      (DefRange data) s)
            else checkTerraformRemoteState_loop Quote rest s)
      else checkTerraformRemoteState_loop Quote rest s)"

definition checkTerraformRemoteState ::
  "(string \<Rightarrow> string) \<Rightarrow> Runner \<Rightarrow> Issue list \<Rightarrow> outcome \<times> Issue list" where
  "checkTerraformRemoteState Quote runner s =
     (case GetModuleContent runner data_schema of
        Inl err \<Rightarrow> (Returned (Some err), s)
      | Inr content \<Rightarrow> checkTerraformRemoteState_loop Quote (Blocks content) s)"

subsection \<open>Check\<close>

text \<open>
  An expression statement \<open>r.checkX(runner)\<close> followed by the rest of the body: the
  returned error is dropped, a panic unwinds past the rest. The \<open>log.Printf\<close> line
  that opens \<open>Check\<close> only writes a trace and is left out.
\<close>

definition call_then ::
  "(Issue list \<Rightarrow> outcome \<times> Issue list) \<Rightarrow> (Issue list \<Rightarrow> outcome \<times> Issue list)
     \<Rightarrow> Issue list \<Rightarrow> outcome \<times> Issue list" where
  "call_then c k s =
     (case c s of
        (Panicked p, s') \<Rightarrow> (Panicked p, s')
      | (Returned _, s') \<Rightarrow> k s')"

definition Check ::
  "(string \<Rightarrow> string) \<Rightarrow> Runner \<Rightarrow> Issue list \<Rightarrow> outcome \<times> Issue list" where
  "Check Quote runner =
     call_then (checkFiles runner)
    (call_then (checkVariables Quote runner)
    (call_then (checkOutputs Quote runner)
    (call_then (checkProviders Quote runner)
    (call_then (checkTerraformBlock Quote runner)
    (call_then (checkLocals Quote runner)
    (call_then (checkTerraformRemoteState Quote runner)
    (\<lambda>s. (Returned None, s))))))))"

section \<open>The checks as a family\<close>

text \<open>
  The six structural checks are copies of one another. To speak about all of them at
  once, each is given a tag; the tables below only collect what the six functions above
  contain: the schema each one queries, the file name literal each one compares against.
\<close>

datatype DeclarationKind =
  Variable | Output | Provider | SettingsBlock | LocalsBlock | RemoteStateData

fun schema_for :: "DeclarationKind \<Rightarrow> hclext_BodySchema" where
  "schema_for Variable = variable_schema"
| "schema_for Output = output_schema"
| "schema_for Provider = provider_schema"
| "schema_for SettingsBlock = terraform_schema"
| "schema_for LocalsBlock = locals_schema"
| "schema_for RemoteStateData = data_schema"

fun expectedFileFor :: "DeclarationKind \<Rightarrow> string" where
  "expectedFileFor Variable = ''_variables.tf''"
| "expectedFileFor Output = ''_outputs.tf''"
| "expectedFileFor Provider = ''_init.tf''"
| "expectedFileFor SettingsBlock = ''_init.tf''"
| "expectedFileFor LocalsBlock = ''_init.tf''"
| "expectedFileFor RemoteStateData = ''_init.tf''"

fun check_for ::
  "(string \<Rightarrow> string) \<Rightarrow> DeclarationKind \<Rightarrow> Runner \<Rightarrow> Issue list
     \<Rightarrow> outcome \<times> Issue list" where
  "check_for Quote Variable = checkVariables Quote"
| "check_for Quote Output = checkOutputs Quote"
| "check_for Quote Provider = checkProviders Quote"
| "check_for Quote SettingsBlock = checkTerraformBlock Quote"
| "check_for Quote LocalsBlock = checkLocals Quote"
| "check_for Quote RemoteStateData = checkTerraformRemoteState Quote"

text \<open>The seven calls of \<open>Check\<close>, in the order of its body.\<close>

datatype check_id = FilePresence | Structural DeclarationKind

fun run_check ::
  "(string \<Rightarrow> string) \<Rightarrow> check_id \<Rightarrow> Runner \<Rightarrow> Issue list \<Rightarrow> outcome \<times> Issue list" where
  "run_check Quote FilePresence = checkFiles"
| "run_check Quote (Structural k) = check_for Quote k"

fun query_of :: "check_id \<Rightarrow> Runner \<Rightarrow> go_error option" where
  "query_of FilePresence runner = (case GetFiles runner of Inl err \<Rightarrow> Some err | Inr _ \<Rightarrow> None)"
| "query_of (Structural k) runner =
     (case GetModuleContent runner (schema_for k) of Inl err \<Rightarrow> Some err | Inr _ \<Rightarrow> None)"

definition check_order :: "check_id list" where
  "check_order =
     [FilePresence, Structural Variable, Structural Output, Structural Provider,
      Structural SettingsBlock, Structural LocalsBlock, Structural RemoteStateData]"

fun run_seq ::
  "(string \<Rightarrow> string) \<Rightarrow> check_id list \<Rightarrow> Runner \<Rightarrow> Issue list
     \<Rightarrow> outcome \<times> Issue list" where
  "run_seq Quote [] runner s = (Returned None, s)"
| "run_seq Quote (c # cs) runner s = call_then (run_check Quote c runner) (run_seq Quote cs runner) s"

text \<open>
  Whether a check panics on a module. The issues emitted before the check starts do not
  matter (lemma \<open>run_check_state\<close> below), so it is run from none.
\<close>

definition panics :: "(string \<Rightarrow> string) \<Rightarrow> check_id \<Rightarrow> Runner \<Rightarrow> bool" where
  "panics Quote c runner =
     (case fst (run_check Quote c runner []) of Returned _ \<Rightarrow> False | Panicked _ \<Rightarrow> True)"

text \<open>
  The checks of a sequence that are reached when the sequence is run: each one up to
  and including the first that panics. Nothing else ends the sequence; whether a check
  returned \<open>nil\<close> or an error is not looked at.
\<close>

fun checks_reached :: "(string \<Rightarrow> string) \<Rightarrow> check_id list \<Rightarrow> Runner \<Rightarrow> check_id list" where
  "checks_reached Quote [] runner = []"
| "checks_reached Quote (c # cs) runner =
     (if panics Quote c runner then [c] else c # checks_reached Quote cs runner)"

text \<open>
  The common shape of the six loops: a block is flagged or not; a flagged block either
  makes the message's arguments panic or has an issue emitted at its \<open>DefRange\<close>.
\<close>

fun issue_loop ::
  "(hclext_Block \<Rightarrow> bool) \<Rightarrow> (hclext_Block \<Rightarrow> go_panic + string)
     \<Rightarrow> hclext_Block list \<Rightarrow> Issue list \<Rightarrow> outcome \<times> Issue list" where
  "issue_loop flagged msg [] s = (Returned None, s)"
| "issue_loop flagged msg (b # bs) s =
     (if flagged b
      then (case msg b of
              Inl p \<Rightarrow> (Panicked p, s)
            | Inr m \<Rightarrow> issue_loop flagged msg bs (EmitIssue m (DefRange b) s))
      else issue_loop flagged msg bs s)"

fun flagged :: "DeclarationKind \<Rightarrow> hclext_Block \<Rightarrow> bool" where
  "flagged RemoteStateData b =
     (Filename (DefRange b) \<noteq> ''_init.tf'' \<and> Type b = ''terraform_remote_state'')"
| "flagged k b = (Filename (DefRange b) \<noteq> expectedFileFor k)"

definition label_message :: "(string \<Rightarrow> string) \<Rightarrow> string \<Rightarrow> string \<Rightarrow> hclext_Block \<Rightarrow> go_panic + string" where
  "label_message Quote word expected b =
     (case slice_index (Labels b) 0 of
        Inl p \<Rightarrow> Inl p
      | Inr label \<Rightarrow>
          Inr (word @ Quote label @ '' should be moved from '' @ Filename (DefRange b)
                 @ '' to '' @ expected))"

fun message_for :: "(string \<Rightarrow> string) \<Rightarrow> DeclarationKind \<Rightarrow> hclext_Block \<Rightarrow> go_panic + string" where
  "message_for Quote Variable b = label_message Quote ''variable '' ''_variables.tf'' b"
| "message_for Quote Output b = label_message Quote ''output '' ''_outputs.tf'' b"
| "message_for Quote Provider b = label_message Quote ''provider '' ''_init.tf'' b"
| "message_for Quote SettingsBlock b = label_message Quote ''terraform block '' ''_init.tf'' b"
| "message_for Quote LocalsBlock b = label_message Quote ''locals block '' ''_init.tf'' b"
| "message_for Quote RemoteStateData b =
     Inr (''data terraform_remote_state '' @ Quote (Name b) @ '' should be moved from ''
            @ Filename (DefRange b) @ '' to '' @ ''_init.tf'')"

section \<open>Example modules\<close>

text \<open>
  A runner over a fixed module: \<open>GetFiles\<close> answers with the given map, and
  \<open>GetModuleContent\<close> with the module's blocks whose type the schema names, in the
  module's order.
\<close>

definition module_runner :: "(string \<rightharpoonup> hcl_File option) \<Rightarrow> hclext_Block list \<Rightarrow> Runner" where
  "module_runner files blocks =
     \<lparr>GetFiles = Inr files,
      GetModuleContent =
        (\<lambda>schema. Inr \<lparr>Blocks = filter (\<lambda>b. Type b \<in> set (map BlockType (BlockSchemas schema))) blocks\<rparr>)\<rparr>"

definition range_in :: "string \<Rightarrow> int \<Rightarrow> hcl_Range" where
  "range_in file line =
     \<lparr>Filename = file, Start = \<lparr>Line = line, Column = 1, Byte = 0\<rparr>,
      End = \<lparr>Line = line, Column = 9, Byte = 8\<rparr>\<rparr>"

definition block_in :: "string \<Rightarrow> string list \<Rightarrow> string \<Rightarrow> int \<Rightarrow> hclext_Block" where
  "block_in type labels file line =
     \<lparr>Type = type, Labels = labels, Name = last ([] # labels), DefRange = range_in file line\<rparr>"

definition standard_files :: "string \<rightharpoonup> hcl_File option" where
  "standard_files =
     [''_init.tf'' \<mapsto> Some \<lparr>Bytes = []\<rparr>, ''_variables.tf'' \<mapsto> Some \<lparr>Bytes = []\<rparr>,
      ''_outputs.tf'' \<mapsto> Some \<lparr>Bytes = []\<rparr>, ''_locals.tf'' \<mapsto> Some \<lparr>Bytes = []\<rparr>]"

definition only_main_tf :: "string \<rightharpoonup> hcl_File option" where
  "only_main_tf = [''main.tf'' \<mapsto> Some \<lparr>Bytes = []\<rparr>]"

text \<open>\<open>main.tf\<close> alone, holding a variable \<open>x\<close>.\<close>

definition main_only_module :: Runner where
  "main_only_module = module_runner only_main_tf [block_in ''variable'' [''x''] ''main.tf'' 1]"

text \<open>The same module behind an accessor whose \<open>GetFiles\<close> fails.\<close>

definition getfiles_fails_module :: Runner where
  "getfiles_fails_module = main_only_module\<lparr>GetFiles := Inl (QueryError ''no files'')\<rparr>"

text \<open>
  The four standard files, a variable \<open>x\<close> in the variables file and an output \<open>y\<close>
  in the variables file too.
\<close>

definition misplaced_output_module :: Runner where
  "misplaced_output_module =
     module_runner standard_files
       [block_in ''variable'' [''x''] ''_variables.tf'' 1,
        block_in ''output'' [''y''] ''_variables.tf'' 5]"

text \<open>The same module behind an accessor that cannot query variables.\<close>

definition variables_fail_module :: Runner where
  "variables_fail_module =
     misplaced_output_module
       \<lparr>GetModuleContent :=
          (GetModuleContent misplaced_output_module)
            (variable_schema := Inl (QueryError ''no variables''))\<rparr>"

text \<open>Every block in the file its check expects.\<close>

definition well_placed_module :: Runner where
  "well_placed_module =
     module_runner standard_files
       [block_in ''terraform'' [] ''_init.tf'' 1,
        block_in ''provider'' [''aws''] ''_init.tf'' 5,
        block_in ''locals'' [] ''_init.tf'' 9,
        block_in ''variable'' [''x''] ''_variables.tf'' 1,
        block_in ''output'' [''y''] ''_outputs.tf'' 1]"

text \<open>
  Two data sources in the outputs file: a \<open>terraform_remote_state\<close> named \<open>z\<close> and an
  \<open>aws_ami\<close> named \<open>w\<close>.
\<close>

definition remote_state_module :: Runner where
  "remote_state_module =
     module_runner standard_files
       [block_in ''data'' [''terraform_remote_state'', ''z''] ''_outputs.tf'' 1,
        block_in ''data'' [''aws_ami'', ''w''] ''_outputs.tf'' 5]"

text \<open>A \<open>terraform\<close> block in \<open>main.tf\<close>.\<close>

definition settings_in_main_module :: Runner where
  "settings_in_main_module =
     module_runner standard_files [block_in ''terraform'' [] ''main.tf'' 1]"

text \<open>A \<open>locals\<close> block in \<open>_locals.tf\<close>.\<close>

definition locals_in_locals_module :: Runner where
  "locals_in_locals_module =
     module_runner standard_files [block_in ''locals'' [] ''_locals.tf'' 1]"

text \<open>
  The module of \<open>misplaced_output_module\<close> behind an accessor that cannot query
  resources, a kind the rule never asks for.
\<close>

definition resource_schema :: hclext_BodySchema where
  "resource_schema = \<lparr>BlockSchemas = [\<lparr>BlockType = ''resource'', LabelNames = [''type'', ''name'']\<rparr>]\<rparr>"

definition resources_fail_module :: Runner where
  "resources_fail_module =
     misplaced_output_module
       \<lparr>GetModuleContent :=
          (GetModuleContent misplaced_output_module)
            (resource_schema := Inl (QueryError ''no resources''))\<rparr>"

text \<open>A variable \<open>x\<close> and a \<open>terraform\<close> block, both in \<open>main.tf\<close>.\<close>

definition variable_and_settings_in_main_module :: Runner where
  "variable_and_settings_in_main_module =
     module_runner standard_files
       [block_in ''variable'' [''x''] ''main.tf'' 1,
        block_in ''terraform'' [] ''main.tf'' 5]"

text \<open>
  A quoting function for the examples. On a string of ASCII bytes it returns what
  \<open>strconv.Quote\<close> returns: the string between double quotes, with a backslash before a
  double quote or a backslash, the short escapes for the seven control characters that
  have one and \<open>\x\<close> with two hexadecimal digits for the others. On a byte from \<open>0x80\<close>
  on, where Go decodes UTF-8 and consults its tables, it is not Go's function (it copies
  the byte); the labels of the examples are ASCII.
\<close>

definition hex_digit :: "nat \<Rightarrow> char" where
  "hex_digit n = ''0123456789abcdef'' ! (n mod 16)"

definition quote_ascii_byte :: "char \<Rightarrow> string" where
  "quote_ascii_byte c =
     (if c = CHR 0x22 \<or> c = CHR 0x5C then [CHR 0x5C, c]
      else if c = CHR 0x07 then [CHR 0x5C, CHR ''a'']
      else if c = CHR 0x08 then [CHR 0x5C, CHR ''b'']
      else if c = CHR 0x0C then [CHR 0x5C, CHR ''f'']
      else if c = CHR 0x0A then [CHR 0x5C, CHR ''n'']
      else if c = CHR 0x0D then [CHR 0x5C, CHR ''r'']
      else if c = CHR 0x09 then [CHR 0x5C, CHR ''t'']
      else if c = CHR 0x0B then [CHR 0x5C, CHR ''v'']
      else if (of_char c :: nat) < 0x20 \<or> c = CHR 0x7F
        then [CHR 0x5C, CHR ''x'', hex_digit (of_char c div 16), hex_digit (of_char c)]
      else [c])"

definition Quote_ascii :: "string \<Rightarrow> string" where
  "Quote_ascii s = [CHR 0x22] @ concat (map quote_ascii_byte s) @ [CHR 0x22]"

section \<open>The six loops are one loop\<close>

lemma checkVariables_loop_generic:
  "checkVariables_loop Quote bs s = issue_loop (flagged Variable) (message_for Quote Variable) bs s"
  by (induction bs arbitrary: s) (simp_all add: label_message_def split: sum.splits)

lemma checkOutputs_loop_generic:
  "checkOutputs_loop Quote bs s = issue_loop (flagged Output) (message_for Quote Output) bs s"
  by (induction bs arbitrary: s) (simp_all add: label_message_def split: sum.splits)

lemma checkProviders_loop_generic:
  "checkProviders_loop Quote bs s = issue_loop (flagged Provider) (message_for Quote Provider) bs s"
  by (induction bs arbitrary: s) (simp_all add: label_message_def split: sum.splits)

lemma checkTerraformBlock_loop_generic:
  "checkTerraformBlock_loop Quote bs s =
     issue_loop (flagged SettingsBlock) (message_for Quote SettingsBlock) bs s"
  by (induction bs arbitrary: s) (simp_all add: label_message_def split: sum.splits)

lemma checkLocals_loop_generic:
  "checkLocals_loop Quote bs s = issue_loop (flagged LocalsBlock) (message_for Quote LocalsBlock) bs s"
  by (induction bs arbitrary: s) (simp_all add: label_message_def split: sum.splits)

lemma checkTerraformRemoteState_loop_generic:
  "checkTerraformRemoteState_loop Quote bs s =
     issue_loop (flagged RemoteStateData) (message_for Quote RemoteStateData) bs s"
  by (induction bs arbitrary: s) simp_all

lemma check_for_generic:
  "check_for Quote k runner s =
     (case GetModuleContent runner (schema_for k) of
        Inl err \<Rightarrow> (Returned (Some err), s)
      | Inr content \<Rightarrow> issue_loop (flagged k) (message_for Quote k) (Blocks content) s)"
  by (cases k)
     (simp_all add: checkVariables_def checkOutputs_def checkProviders_def
        checkTerraformBlock_def checkLocals_def checkTerraformRemoteState_def
        checkVariables_loop_generic checkOutputs_loop_generic checkProviders_loop_generic
        checkTerraformBlock_loop_generic checkLocals_loop_generic
        checkTerraformRemoteState_loop_generic split: sum.splits)

lemma issue_loop_state:
  "issue_loop f m bs s = (fst (issue_loop f m bs []), s @ snd (issue_loop f m bs []))"
proof (induction bs arbitrary: s)
  case Nil
  show ?case by simp
next
  case (Cons b bs)
  show ?case
  proof (cases "f b")
    case False
    then show ?thesis using Cons.IH [of s] by simp
  next
    case True
    show ?thesis
    proof (cases "m b")
      case (Inl p)
      with True show ?thesis by simp
    next
      case (Inr msg)
      have a: "issue_loop f m bs (EmitIssue msg (DefRange b) s)
                 = (fst (issue_loop f m bs []),
                    EmitIssue msg (DefRange b) s @ snd (issue_loop f m bs []))"
        by (rule Cons.IH)
      have b: "issue_loop f m bs (EmitIssue msg (DefRange b) [])
                 = (fst (issue_loop f m bs []),
                    EmitIssue msg (DefRange b) [] @ snd (issue_loop f m bs []))"
        by (rule Cons.IH)
      from True Inr a b show ?thesis by (simp add: EmitIssue_def)
    qed
  qed
qed

lemma issue_loop_filter:
  "issue_loop f m (filter f bs) s = issue_loop f m bs s"
  by (induction bs arbitrary: s) (simp_all split: sum.splits)

lemma issue_loop_none_flagged:
  "\<forall>b \<in> set bs. \<not> f b \<Longrightarrow> issue_loop f m bs s = (Returned None, s)"
  by (induction bs arbitrary: s) simp_all

lemma issue_loop_locations:
  "\<forall>b \<in> set bs. f b \<longrightarrow> (\<exists>msg. m b = Inr msg) \<Longrightarrow>
   fst (issue_loop f m bs s) = Returned None \<and>
   map Location (snd (issue_loop f m bs s)) = map Location s @ map DefRange (filter f bs)"
  by (induction bs arbitrary: s) (auto simp: EmitIssue_def)

lemma checkFiles_loop_eq:
  "checkFiles_loop files names s =
     s @ map (\<lambda>name. \<lparr>Message = ''Module should include a '' @ name @ '' file.'',
                      Location = \<lparr>Filename = name, Start = InitialPos, End = zero_Pos\<rparr>\<rparr>)
           (filter (\<lambda>name. map_index files name = None) names)"
  by (induction names arbitrary: s) (simp_all add: EmitIssue_def)

section \<open>Every check only appends\<close>

lemma checkFiles_state:
  "checkFiles runner s = (fst (checkFiles runner []), s @ snd (checkFiles runner []))"
  by (simp add: checkFiles_def checkFiles_loop_eq split: sum.splits)

lemma check_for_state:
  "check_for Quote k runner s = (fst (check_for Quote k runner []), s @ snd (check_for Quote k runner []))"
proof (cases "GetModuleContent runner (schema_for k)")
  case (Inl err)
  then show ?thesis by (simp add: check_for_generic)
next
  case (Inr content)
  then show ?thesis
    using issue_loop_state [of "flagged k" "message_for Quote k" "Blocks content" s]
    by (simp add: check_for_generic)
qed

lemma run_check_state:
  "run_check Quote c runner s = (fst (run_check Quote c runner []), s @ snd (run_check Quote c runner []))"
proof (cases c)
  case FilePresence
  then show ?thesis using checkFiles_state [of runner s] by simp
next
  case (Structural k)
  then show ?thesis using check_for_state [of Quote k runner s] by simp
qed

lemma run_check_query_fails:
  "query_of c runner = Some err \<Longrightarrow> run_check Quote c runner s = (Returned (Some err), s)"
  by (cases c) (auto simp: checkFiles_def check_for_generic split: sum.splits)

section \<open>Check as a sequence\<close>

lemma Check_run_seq: "Check Quote runner s = run_seq Quote check_order runner s"
  by (simp add: Check_def check_order_def call_then_def split: prod.splits outcome.splits)

lemma query_fails_not_panics: "query_of c runner = Some err \<Longrightarrow> \<not> panics Quote c runner"
  by (simp add: panics_def run_check_query_fails)

lemma run_seq_issues:
  "snd (run_seq Quote cs runner s) =
     s @ concat (map (\<lambda>c. snd (run_check Quote c runner [])) (checks_reached Quote cs runner))"
proof (induction cs arbitrary: s)
  case Nil
  show ?case by simp
next
  case (Cons c cs)
  obtain o1 s1 where c: "run_check Quote c runner [] = (o1, s1)"
    by (cases "run_check Quote c runner []")
  have st: "run_check Quote c runner s = (o1, s @ s1)"
    using run_check_state [of Quote c runner s] c by simp
  show ?case
  proof (cases o1)
    case (Panicked p)
    with st c show ?thesis by (simp add: call_then_def panics_def)
  next
    case (Returned e)
    with st c Cons.IH [of "s @ s1"] show ?thesis by (simp add: call_then_def panics_def)
  qed
qed

lemma checks_reached_no_panic:
  "\<forall>c \<in> set cs. \<not> panics Quote c runner \<Longrightarrow> checks_reached Quote cs runner = cs"
  by (induction cs) simp_all

lemma run_seq_no_error: "fst (run_seq Quote cs runner s) \<noteq> Returned (Some err)"
  by (induction cs arbitrary: s) (simp_all add: call_then_def split: prod.splits outcome.splits)

lemma run_seq_no_panic:
  "\<forall>c \<in> set cs. \<not> panics Quote c runner \<Longrightarrow> fst (run_seq Quote cs runner s) = Returned None"
proof (induction cs arbitrary: s)
  case Nil
  show ?case by simp
next
  case (Cons c cs)
  then show ?case
    by (cases "run_check Quote c runner s"; cases "fst (run_check Quote c runner s)")
       (use run_check_state [of Quote c runner s] in \<open>auto simp: call_then_def panics_def\<close>)
qed

lemma run_seq_returns:
  "fst (run_seq Quote cs runner s) = Returned r \<Longrightarrow>
   run_seq Quote cs runner s =
     (Returned None, s @ concat (map (\<lambda>c. snd (run_check Quote c runner [])) cs))"
proof (induction cs arbitrary: s)
  case Nil
  then show ?case by simp
next
  case (Cons c cs)
  obtain o1 s1 where c: "run_check Quote c runner [] = (o1, s1)"
    by (cases "run_check Quote c runner []")
  have st: "run_check Quote c runner s = (o1, s @ s1)"
    using run_check_state [of Quote c runner s] c by simp
  show ?case
  proof (cases o1)
    case (Panicked p)
    with st Cons.prems show ?thesis by (simp add: call_then_def)
  next
    case (Returned e)
    with st Cons.prems have "fst (run_seq Quote cs runner (s @ s1)) = Returned r"
      by (simp add: call_then_def)
    from Cons.IH [OF this] Returned st c show ?thesis by (simp add: call_then_def)
  qed
qed

lemma concat_removeAll_silent:
  "f c = [] \<Longrightarrow> concat (map f (removeAll c cs)) = concat (map f cs)"
  by (induction cs) auto


section \<open>Evaluation of the examples\<close>

lemmas example_defs =
  module_runner_def block_in_def range_in_def standard_files_def only_main_tf_def
  variable_schema_def output_schema_def provider_schema_def terraform_schema_def
  locals_schema_def data_schema_def resource_schema_def

lemmas rule_defs =
  Check_def call_then_def checkFiles_def checkVariables_def checkOutputs_def
  checkProviders_def checkTerraformBlock_def checkLocals_def checkTerraformRemoteState_def
  EXPECTED_FILES_def map_index_def slice_index_def EmitIssue_def Quote_ascii_def
  quote_ascii_byte_def InitialPos_def zero_Pos_def

section \<open>Query failures\<close>

text \<open>
  Claim C1 says that a failed query stops the driver: the remaining checks do not run
  and the error reaches the caller. It does not, as this run shows (counterexample to
  C1): \<open>GetFiles\<close> fails, and \<open>Check\<close> still reports the variable in \<open>main.tf\<close>,
  which only \<open>checkVariables\<close> can do, and returns \<open>nil\<close>.
\<close>

theorem Check_goes_on_after_GetFiles_fails:
  "GetFiles getfiles_fails_module = Inl (QueryError ''no files'') \<and>
   Check Quote_ascii getfiles_fails_module [] =
     (Returned None,
      [\<lparr>Message = ''variable '' @ [CHR 0x22] @ ''x'' @ [CHR 0x22]
                    @ '' should be moved from main.tf to _variables.tf'',
        Location = range_in ''main.tf'' 1\<rparr>])"
  by (simp add: getfiles_fails_module_def main_only_module_def example_defs rule_defs)

text \<open>
  C1 as amended: when the query of a check fails, that check returns the error at once
  and emits nothing. The driver drops the error: in an invocation in which no check
  panics it returns \<open>nil\<close>, and what it has emitted are the issues of every other check,
  one check after the other in the order of the driver.
\<close>

theorem query_failure_is_dropped:
  assumes "query_of c runner = Some err"
      and "\<forall>d \<in> set check_order. \<not> panics Quote d runner"
  shows "run_check Quote c runner s = (Returned (Some err), s) \<and>
         Check Quote runner s =
           (Returned None,
            s @ concat (map (\<lambda>d. snd (run_check Quote d runner []))
                          (removeAll c check_order)))"
proof -
  have a: "run_check Quote c runner s = (Returned (Some err), s)"
    using assms(1) by (rule run_check_query_fails)
  have "run_check Quote c runner [] = (Returned (Some err), [])"
    using assms(1) by (rule run_check_query_fails)
  then have e: "snd (run_check Quote c runner []) = []" by simp
  have r: "checks_reached Quote check_order runner = check_order"
    using assms(2) by (rule checks_reached_no_panic)
  have f: "fst (Check Quote runner s) = Returned None"
    using run_seq_no_panic [OF assms(2), of s] by (simp only: Check_run_seq)
  have g: "snd (Check Quote runner s) =
             s @ concat (map (\<lambda>d. snd (run_check Quote d runner [])) check_order)"
    using run_seq_issues [of Quote check_order runner s] by (simp only: Check_run_seq r)
  have "concat (map (\<lambda>d. snd (run_check Quote d runner [])) (removeAll c check_order))
          = concat (map (\<lambda>d. snd (run_check Quote d runner [])) check_order)"
    using e by (rule concat_removeAll_silent)
  with f g have "Check Quote runner s =
           (Returned None,
            s @ concat (map (\<lambda>d. snd (run_check Quote d runner []))
                          (removeAll c check_order)))"
    by (simp add: prod_eq_iff)
  with a show ?thesis by simp
qed

text \<open>
  Witness for the amended C1: \<open>GetFiles\<close> fails and no check panics; \<open>checkFiles\<close>
  returns that error, and \<open>Check\<close> returns \<open>nil\<close> with the issue of \<open>checkVariables\<close>.
\<close>

theorem query_failure_is_dropped_witness:
  "query_of FilePresence getfiles_fails_module = Some (QueryError ''no files'') \<and>
   checkFiles getfiles_fails_module [] = (Returned (Some (QueryError ''no files'')), []) \<and>
   Check Quote_ascii getfiles_fails_module [] =
     (Returned None,
      snd (checkVariables Quote_ascii getfiles_fails_module [])
        @ snd (checkOutputs Quote_ascii getfiles_fails_module [])
        @ snd (checkProviders Quote_ascii getfiles_fails_module [])
        @ snd (checkTerraformBlock Quote_ascii getfiles_fails_module [])
        @ snd (checkLocals Quote_ascii getfiles_fails_module [])
        @ snd (checkTerraformRemoteState Quote_ascii getfiles_fails_module [])) \<and>
   snd (checkVariables Quote_ascii getfiles_fails_module []) =
     [\<lparr>Message = ''variable '' @ [CHR 0x22] @ ''x'' @ [CHR 0x22]
                   @ '' should be moved from main.tf to _variables.tf'',
       Location = range_in ''main.tf'' 1\<rparr>]"
proof -
  have h: "query_of FilePresence getfiles_fails_module = Some (QueryError ''no files'')"
    by (simp add: getfiles_fails_module_def)
  have p: "\<forall>d \<in> set check_order. \<not> panics Quote_ascii d getfiles_fails_module"
    by (simp add: check_order_def panics_def getfiles_fails_module_def main_only_module_def
          example_defs rule_defs)
  have v: "snd (checkVariables Quote_ascii getfiles_fails_module []) =
     [\<lparr>Message = ''variable '' @ [CHR 0x22] @ ''x'' @ [CHR 0x22]
                   @ '' should be moved from main.tf to _variables.tf'',
       Location = range_in ''main.tf'' 1\<rparr>]"
    by (simp add: getfiles_fails_module_def main_only_module_def example_defs rule_defs)
  from query_failure_is_dropped [OF h p, where s = "[]"] h v show ?thesis
    by (simp add: check_order_def)
qed

text \<open>
  Claim C2: a failed query does not short-circuit the driver. Whatever the runner, the
  issues of one invocation are those of the checks reached, one check after the other,
  and only a panic keeps the later checks from being reached: a check whose query
  fails returns its error, emits nothing and is followed by the checks after it as if
  its query had succeeded. The driver itself never returns an error.
\<close>

theorem failed_queries_do_not_stop_the_other_checks:
  "(query_of c runner = Some err \<longrightarrow>
      run_check Quote c runner s = (Returned (Some err), s) \<and>
      checks_reached Quote (c # cs) runner = c # checks_reached Quote cs runner) \<and>
   snd (Check Quote runner s) =
     s @ concat (map (\<lambda>d. snd (run_check Quote d runner []))
                   (checks_reached Quote check_order runner)) \<and>
   fst (Check Quote runner s) \<noteq> Returned (Some err')"
proof -
  have a: "run_check Quote c runner s = (Returned (Some err), s) \<and>
           checks_reached Quote (c # cs) runner = c # checks_reached Quote cs runner"
    if "query_of c runner = Some err"
    using that run_check_query_fails [OF that, of Quote s]
      query_fails_not_panics [OF that, of Quote]
    by simp
  have b: "snd (Check Quote runner s) =
     s @ concat (map (\<lambda>d. snd (run_check Quote d runner []))
                   (checks_reached Quote check_order runner))"
    using run_seq_issues [of Quote check_order runner s] by (simp only: Check_run_seq)
  have c: "fst (Check Quote runner s) \<noteq> Returned (Some err')"
    using run_seq_no_error [of Quote check_order runner s err'] by (simp add: Check_run_seq)
  from a b c show ?thesis by blast
qed

text \<open>
  Witness for C2: the variables cannot be queried; every check is reached all the same,
  and \<open>Check\<close> returns \<open>nil\<close> having emitted the issue of \<open>checkOutputs\<close> for the output
  \<open>y\<close>.
\<close>

theorem failed_queries_do_not_stop_the_other_checks_witness:
  "query_of (Structural Variable) variables_fail_module = Some (QueryError ''no variables'') \<and>
   checkVariables Quote_ascii variables_fail_module []
     = (Returned (Some (QueryError ''no variables'')), []) \<and>
   checks_reached Quote_ascii check_order variables_fail_module = check_order \<and>
   Check Quote_ascii variables_fail_module [] =
     (Returned None,
      [\<lparr>Message = ''output '' @ [CHR 0x22] @ ''y'' @ [CHR 0x22]
                    @ '' should be moved from _variables.tf to _outputs.tf'',
        Location = range_in ''_variables.tf'' 5\<rparr>])"
proof -
  have h: "query_of (Structural Variable) variables_fail_module
             = Some (QueryError ''no variables'')"
    by (simp add: variables_fail_module_def)
  have r: "checks_reached Quote_ascii check_order variables_fail_module = check_order"
    by (simp add: check_order_def panics_def variables_fail_module_def
          misplaced_output_module_def example_defs rule_defs)
  have f: "fst (Check Quote_ascii variables_fail_module []) = Returned None"
    by (simp add: variables_fail_module_def misplaced_output_module_def example_defs rule_defs)
  have i: "concat (map (\<lambda>d. snd (run_check Quote_ascii d variables_fail_module [])) check_order)
      = [\<lparr>Message = ''output '' @ [CHR 0x22] @ ''y'' @ [CHR 0x22]
                    @ '' should be moved from _variables.tf to _outputs.tf'',
           Location = range_in ''_variables.tf'' 5\<rparr>]"
    by (simp add: check_order_def variables_fail_module_def misplaced_output_module_def
          example_defs rule_defs)
  from failed_queries_do_not_stop_the_other_checks
         [where c = "Structural Variable" and runner = variables_fail_module
            and err = "QueryError ''no variables''" and Quote = Quote_ascii
            and s = "[]" and cs = "[]"]
       h r f i
  show ?thesis by (simp add: prod_eq_iff)
qed

section \<open>Order and determinism of the driver\<close>

text \<open>
  Claim C8 says that one invocation runs the file check and then the six structural
  checks, each to its end. The driver's body does call them in that order, but a
  check that panics ends the invocation: with a variable and a \<open>terraform\<close> block in
  \<open>main.tf\<close>, \<open>checkTerraformBlock\<close> panics on \<open>Labels[0]\<close>, the invocation ends in that
  panic after the issue for the variable, and \<open>checkLocals\<close> and
  \<open>checkTerraformRemoteState\<close> are not reached.
\<close>

theorem Check_ends_at_the_panic_of_checkTerraformBlock:
  "checks_reached Quote check_order variable_and_settings_in_main_module =
     [FilePresence, Structural Variable, Structural Output, Structural Provider,
      Structural SettingsBlock] \<and>
   checkTerraformBlock Quote variable_and_settings_in_main_module []
     = (Panicked (IndexOutOfRange 0 0), []) \<and>
   Check Quote variable_and_settings_in_main_module [] =
     (Panicked (IndexOutOfRange 0 0),
      [\<lparr>Message = ''variable '' @ Quote ''x''
                    @ '' should be moved from main.tf to _variables.tf'',
        Location = range_in ''main.tf'' 1\<rparr>])"
  by (simp add: check_order_def panics_def variable_and_settings_in_main_module_def
        example_defs Check_def call_then_def checkFiles_def checkVariables_def checkOutputs_def
        checkProviders_def checkTerraformBlock_def checkLocals_def
        checkTerraformRemoteState_def EXPECTED_FILES_def map_index_def slice_index_def
        EmitIssue_def)

text \<open>
  What holds of the order: an invocation that returns has run the seven checks to
  their end, and what it has emitted are the issues of each check, one check after the
  other in the order of the driver's body.
\<close>

lemma Check_emits_in_check_order:
  assumes "fst (Check Quote runner s) = Returned r"
  shows "Check Quote runner s =
           (Returned None,
            s @ snd (checkFiles runner []) @ snd (checkVariables Quote runner [])
              @ snd (checkOutputs Quote runner []) @ snd (checkProviders Quote runner [])
              @ snd (checkTerraformBlock Quote runner []) @ snd (checkLocals Quote runner [])
              @ snd (checkTerraformRemoteState Quote runner []))"
  using run_seq_returns [of Quote check_order runner s r] assms
  by (simp add: Check_run_seq check_order_def)

text \<open>
  Claim C10: \<open>Check\<close> is deterministic. Its outcome and the issues it emits, with
  their messages, locations and order, depend on the runner only through the file set
  and the blocks returned for the six schemas it queries.
\<close>

theorem Check_depends_only_on_the_queries:
  assumes "GetFiles r1 = GetFiles r2"
      and "\<forall>k. GetModuleContent r1 (schema_for k) = GetModuleContent r2 (schema_for k)"
  shows "Check Quote r1 s = Check Quote r2 s"
proof -
  have q: "run_check Quote c r1 = run_check Quote c r2" for c
  proof (cases c)
    case FilePresence
    then show ?thesis using assms(1) by (simp add: checkFiles_def fun_eq_iff)
  next
    case (Structural k)
    then show ?thesis using assms(2) by (simp add: check_for_generic fun_eq_iff)
  qed
  have "run_seq Quote cs r1 t = run_seq Quote cs r2 t" for cs t
    by (induction cs arbitrary: t)
       (simp_all add: q call_then_def split: prod.splits outcome.splits)
  then show ?thesis by (simp add: Check_run_seq)
qed

text \<open>
  Witness for C10: two runners that differ on a schema the rule never queries.
\<close>

theorem Check_depends_only_on_the_queries_witness:
  "GetModuleContent resources_fail_module resource_schema
     \<noteq> GetModuleContent misplaced_output_module resource_schema \<and>
   Check Quote_ascii resources_fail_module [] = Check Quote_ascii misplaced_output_module []"
proof -
  have f: "GetFiles resources_fail_module = GetFiles misplaced_output_module"
    by (simp add: resources_fail_module_def)
  have m: "\<forall>k. GetModuleContent resources_fail_module (schema_for k)
               = GetModuleContent misplaced_output_module (schema_for k)"
  proof
    fix k
    show "GetModuleContent resources_fail_module (schema_for k)
            = GetModuleContent misplaced_output_module (schema_for k)"
      by (cases k) (simp_all add: resources_fail_module_def example_defs)
  qed
  have d: "GetModuleContent resources_fail_module resource_schema
             \<noteq> GetModuleContent misplaced_output_module resource_schema"
    by (simp add: resources_fail_module_def misplaced_output_module_def module_runner_def)
  from Check_depends_only_on_the_queries [OF f m, where Quote = Quote_ascii and s = "[]"] d
  show ?thesis by simp
qed

section \<open>The file check\<close>

text \<open>
  Claim C7: when the files can be queried, \<open>checkFiles\<close> emits, for each of the four
  required files that is missing and in the order of \<open>EXPECTED_FILES\<close>, one issue
  saying the module should include it, located at the initial position of that file.
  The four names are distinct, so a missing file has exactly one issue; when none is
  missing nothing is emitted.
\<close>

theorem checkFiles_reports_each_missing_file:
  assumes "GetFiles runner = Inr files"
  shows "checkFiles runner s =
           (Returned None,
            s @ map (\<lambda>name. \<lparr>Message = ''Module should include a '' @ name @ '' file.'',
                             Location = \<lparr>Filename = name, Start = InitialPos, End = zero_Pos\<rparr>\<rparr>)
                  (filter (\<lambda>name. map_index files name = None) EXPECTED_FILES)) \<and>
         distinct EXPECTED_FILES \<and>
         ((\<forall>name \<in> set EXPECTED_FILES. map_index files name \<noteq> None)
            \<longrightarrow> checkFiles runner s = (Returned None, s))"
proof -
  have a: "checkFiles runner s =
           (Returned None,
            s @ map (\<lambda>name. \<lparr>Message = ''Module should include a '' @ name @ '' file.'',
                             Location = \<lparr>Filename = name, Start = InitialPos, End = zero_Pos\<rparr>\<rparr>)
                  (filter (\<lambda>name. map_index files name = None) EXPECTED_FILES))"
    using assms by (simp add: checkFiles_def checkFiles_loop_eq)
  have b: "distinct EXPECTED_FILES" by (simp add: EXPECTED_FILES_def)
  have c: "checkFiles runner s = (Returned None, s)"
    if "\<forall>name \<in> set EXPECTED_FILES. map_index files name \<noteq> None"
  proof -
    from that have "filter (\<lambda>name. map_index files name = None) EXPECTED_FILES = []"
      by (simp add: filter_empty_conv)
    with a show ?thesis by simp
  qed
  from a b c show ?thesis by blast
qed

text \<open>
  Witness for C7: with \<open>main.tf\<close> alone the four issues are emitted; with the four
  standard files none is.
\<close>

theorem checkFiles_reports_each_missing_file_witness:
  "GetFiles main_only_module = Inr only_main_tf \<and>
   checkFiles main_only_module [] =
     (Returned None,
      [\<lparr>Message = ''Module should include a _init.tf file.'',
        Location = \<lparr>Filename = ''_init.tf'', Start = InitialPos, End = zero_Pos\<rparr>\<rparr>,
       \<lparr>Message = ''Module should include a _variables.tf file.'',
        Location = \<lparr>Filename = ''_variables.tf'', Start = InitialPos, End = zero_Pos\<rparr>\<rparr>,
       \<lparr>Message = ''Module should include a _outputs.tf file.'',
        Location = \<lparr>Filename = ''_outputs.tf'', Start = InitialPos, End = zero_Pos\<rparr>\<rparr>,
       \<lparr>Message = ''Module should include a _locals.tf file.'',
        Location = \<lparr>Filename = ''_locals.tf'', Start = InitialPos, End = zero_Pos\<rparr>\<rparr>]) \<and>
   GetFiles well_placed_module = Inr standard_files \<and>
   map_index standard_files ''_init.tf'' \<noteq> None \<and>
   map_index standard_files ''_variables.tf'' \<noteq> None \<and>
   map_index standard_files ''_outputs.tf'' \<noteq> None \<and>
   map_index standard_files ''_locals.tf'' \<noteq> None \<and>
   checkFiles well_placed_module [] = (Returned None, [])"
proof -
  have h: "GetFiles main_only_module = Inr only_main_tf"
    by (simp add: main_only_module_def module_runner_def)
  have g: "GetFiles well_placed_module = Inr standard_files"
    by (simp add: well_placed_module_def module_runner_def)
  have p: "\<forall>name \<in> set EXPECTED_FILES. map_index standard_files name \<noteq> None"
    by (simp add: EXPECTED_FILES_def map_index_def standard_files_def)
  from checkFiles_reports_each_missing_file [OF h, of "[]"]
       checkFiles_reports_each_missing_file [OF g, of "[]"] h g p
  show ?thesis
    by (simp add: EXPECTED_FILES_def map_index_def only_main_tf_def standard_files_def)
qed

section \<open>The structural checks\<close>

text \<open>
  Claim C6: for every kind, a block in the file expected for its kind produces no
  issue. The check behaves as on the module without those blocks, and when every block
  of the kind is where it is expected the check emits nothing and returns \<open>nil\<close>.
\<close>

theorem well_placed_blocks_are_silent:
  assumes "GetModuleContent runner (schema_for k) = Inr content"
  shows "check_for Quote k runner s =
           check_for Quote k
             (runner\<lparr>GetModuleContent :=
                (GetModuleContent runner)
                  (schema_for k :=
                     Inr \<lparr>Blocks = filter (\<lambda>b. Filename (DefRange b) \<noteq> expectedFileFor k)
                                     (Blocks content)\<rparr>)\<rparr>) s \<and>
         ((\<forall>b \<in> set (Blocks content). Filename (DefRange b) = expectedFileFor k)
            \<longrightarrow> check_for Quote k runner s = (Returned None, s))"
proof -
  let ?wrong = "\<lambda>b. Filename (DefRange b) \<noteq> expectedFileFor k"
  have sub: "flagged k b \<Longrightarrow> ?wrong b" for b by (cases k) simp_all
  have ff: "filter (flagged k) (filter ?wrong bs) = filter (flagged k) bs" for bs
    by (induction bs) (auto dest: sub)
  have "issue_loop (flagged k) (message_for Quote k) (filter ?wrong (Blocks content)) s
          = issue_loop (flagged k) (message_for Quote k) (Blocks content) s"
    using issue_loop_filter [of "flagged k" "message_for Quote k" "filter ?wrong (Blocks content)" s]
      issue_loop_filter [of "flagged k" "message_for Quote k" "Blocks content" s]
    by (simp only: ff)
  then have a: "check_for Quote k runner s =
           check_for Quote k
             (runner\<lparr>GetModuleContent :=
                (GetModuleContent runner)
                  (schema_for k := Inr \<lparr>Blocks = filter ?wrong (Blocks content)\<rparr>)\<rparr>) s"
    using assms by (simp add: check_for_generic)
  have b: "check_for Quote k runner s = (Returned None, s)"
    if "\<forall>b \<in> set (Blocks content). Filename (DefRange b) = expectedFileFor k"
  proof -
    from that sub have "\<forall>b \<in> set (Blocks content). \<not> flagged k b" by blast
    from issue_loop_none_flagged [OF this] assms show ?thesis
      by (simp add: check_for_generic)
  qed
  from a b show ?thesis by blast
qed

text \<open>Witness for C6: a \<open>terraform\<close> block in \<open>_init.tf\<close>.\<close>

theorem well_placed_blocks_are_silent_witness:
  "GetModuleContent well_placed_module (schema_for SettingsBlock)
     = Inr \<lparr>Blocks = [block_in ''terraform'' [] ''_init.tf'' 1]\<rparr> \<and>
   Filename (DefRange (block_in ''terraform'' [] ''_init.tf'' 1)) = expectedFileFor SettingsBlock \<and>
   checkTerraformBlock Quote_ascii well_placed_module [] = (Returned None, [])"
proof -
  have h: "GetModuleContent well_placed_module (schema_for SettingsBlock)
             = Inr \<lparr>Blocks = [block_in ''terraform'' [] ''_init.tf'' 1]\<rparr>"
    by (simp add: well_placed_module_def example_defs)
  have p: "Filename (DefRange (block_in ''terraform'' [] ''_init.tf'' 1))
             = expectedFileFor SettingsBlock"
    by (simp add: block_in_def range_in_def)
  from well_placed_blocks_are_silent
         [OF h, where Quote = Quote_ascii and s = "[]", THEN conjunct2] h p
  show ?thesis by simp
qed

text \<open>
  Claim C9: \<open>checkTerraformRemoteState\<close> never emits. The accessor answers the data
  schema with blocks of type \<open>data\<close>, the check compares that type with
  \<open>terraform_remote_state\<close>, so no block passes; the check returns what the query
  returned and leaves the issues as they were.
\<close>

theorem checkTerraformRemoteState_never_emits:
  assumes "\<forall>content. GetModuleContent runner data_schema = Inr content
             \<longrightarrow> (\<forall>b \<in> set (Blocks content). Type b = ''data'')"
  shows "checkTerraformRemoteState Quote runner s
           = (Returned (query_of (Structural RemoteStateData) runner), s)"
proof (cases "GetModuleContent runner data_schema")
  case (Inl err)
  then show ?thesis by (simp add: checkTerraformRemoteState_def)
next
  case (Inr content)
  with assms have nf: "\<forall>b \<in> set (Blocks content). \<not> flagged RemoteStateData b" by simp
  have "issue_loop (flagged RemoteStateData) (message_for Quote RemoteStateData) (Blocks content) s
          = (Returned None, s)"
    using nf by (rule issue_loop_none_flagged)
  with Inr show ?thesis
    by (simp only: checkTerraformRemoteState_def checkTerraformRemoteState_loop_generic
          sum.case query_of.simps schema_for.simps)
qed

text \<open>
  Witness for C9: a \<open>terraform_remote_state\<close> data source and an \<open>aws_ami\<close> one,
  both in the outputs file.
\<close>

theorem checkTerraformRemoteState_never_emits_witness:
  "GetModuleContent remote_state_module data_schema =
     Inr \<lparr>Blocks = [block_in ''data'' [''terraform_remote_state'', ''z''] ''_outputs.tf'' 1,
                    block_in ''data'' [''aws_ami'', ''w''] ''_outputs.tf'' 5]\<rparr> \<and>
   checkTerraformRemoteState Quote_ascii remote_state_module [] = (Returned None, [])"
proof -
  have h: "GetModuleContent remote_state_module data_schema =
     Inr \<lparr>Blocks = [block_in ''data'' [''terraform_remote_state'', ''z''] ''_outputs.tf'' 1,
                    block_in ''data'' [''aws_ami'', ''w''] ''_outputs.tf'' 5]\<rparr>"
    by (simp add: remote_state_module_def example_defs)
  have p: "\<forall>content. GetModuleContent remote_state_module data_schema = Inr content
             \<longrightarrow> (\<forall>b \<in> set (Blocks content). Type b = ''data'')"
    by (auto simp: h block_in_def)
  from checkTerraformRemoteState_never_emits [OF p, where Quote = Quote_ascii and s = "[]"] h
  show ?thesis by simp
qed

text \<open>
  Claim C3 expects one issue for a \<open>terraform_remote_state\<close> data source outside
  \<open>_init.tf\<close>. The code emits none: on the module with such a data source in the
  outputs file, the check and the whole driver return with no issue.
\<close>

theorem remote_state_data_source_is_not_reported:
  "GetModuleContent remote_state_module data_schema =
     Inr \<lparr>Blocks = [block_in ''data'' [''terraform_remote_state'', ''z''] ''_outputs.tf'' 1,
                    block_in ''data'' [''aws_ami'', ''w''] ''_outputs.tf'' 5]\<rparr> \<and>
   Filename (DefRange (block_in ''data'' [''terraform_remote_state'', ''z''] ''_outputs.tf'' 1))
     \<noteq> ''_init.tf'' \<and>
   checkTerraformRemoteState Quote remote_state_module [] = (Returned None, []) \<and>
   Check Quote remote_state_module [] = (Returned None, [])"
  by (simp add: remote_state_module_def example_defs rule_defs)

text \<open>
  Claim C4 expects an issue with an empty label for a misplaced block that has no
  label. The code indexes \<open>Labels[0]\<close> of such a block: a \<open>terraform\<close> block in
  \<open>main.tf\<close>, or a \<open>locals\<close> block in \<open>_locals.tf\<close>, makes the check, and \<open>Check\<close>
  with it, panic with an index out of range before any issue is emitted.
\<close>

theorem unlabelled_misplaced_block_panics:
  "GetModuleContent settings_in_main_module terraform_schema =
     Inr \<lparr>Blocks = [block_in ''terraform'' [] ''main.tf'' 1]\<rparr> \<and>
   Labels (block_in ''terraform'' [] ''main.tf'' 1) = [] \<and>
   checkTerraformBlock Quote settings_in_main_module [] = (Panicked (IndexOutOfRange 0 0), []) \<and>
   Check Quote settings_in_main_module [] = (Panicked (IndexOutOfRange 0 0), []) \<and>
   GetModuleContent locals_in_locals_module locals_schema =
     Inr \<lparr>Blocks = [block_in ''locals'' [] ''_locals.tf'' 1]\<rparr> \<and>
   checkLocals Quote locals_in_locals_module [] = (Panicked (IndexOutOfRange 0 0), []) \<and>
   Check Quote locals_in_locals_module [] = (Panicked (IndexOutOfRange 0 0), [])"
  by (simp add: settings_in_main_module_def locals_in_locals_module_def example_defs rule_defs)

text \<open>
  Claim C5 expects exactly one issue for every misplaced block of every kind. For
  three kinds the code emits none: a misplaced \<open>locals\<close> block and a misplaced
  \<open>terraform\<close> block end the check in a panic, and a misplaced
  \<open>terraform_remote_state\<close> data source is skipped.
\<close>

theorem misplaced_block_without_diagnostic:
  "(\<exists>b. GetModuleContent locals_in_locals_module (schema_for LocalsBlock) = Inr \<lparr>Blocks = [b]\<rparr> \<and>
        Filename (DefRange b) \<noteq> expectedFileFor LocalsBlock) \<and>
   snd (check_for Quote LocalsBlock locals_in_locals_module []) = [] \<and>
   (\<exists>b. GetModuleContent settings_in_main_module (schema_for SettingsBlock) = Inr \<lparr>Blocks = [b]\<rparr> \<and>
        Filename (DefRange b) \<noteq> expectedFileFor SettingsBlock) \<and>
   snd (check_for Quote SettingsBlock settings_in_main_module []) = [] \<and>
   (\<exists>b bs. GetModuleContent remote_state_module (schema_for RemoteStateData)
              = Inr \<lparr>Blocks = b # bs\<rparr> \<and>
        Labels b = [''terraform_remote_state'', ''z''] \<and>
        Filename (DefRange b) \<noteq> expectedFileFor RemoteStateData) \<and>
   snd (check_for Quote RemoteStateData remote_state_module []) = []"
  by (simp add: settings_in_main_module_def locals_in_locals_module_def remote_state_module_def
        example_defs rule_defs)

text \<open>
  For the three kinds whose schema asks for a label, and blocks that carry one, the
  property holds: the issues emitted are located at the \<open>DefRange\<close> of the misplaced
  blocks, one for each, in the accessor's order.
\<close>

lemma labelled_kinds_report_misplaced_blocks:
  assumes "k = Variable \<or> k = Output \<or> k = Provider"
      and "GetModuleContent runner (schema_for k) = Inr content"
      and "\<forall>b \<in> set (Blocks content). Labels b \<noteq> []"
  shows "fst (check_for Quote k runner s) = Returned None \<and>
         map Location (snd (check_for Quote k runner s)) =
           map Location s @
           map DefRange (filter (\<lambda>b. Filename (DefRange b) \<noteq> expectedFileFor k) (Blocks content))"
proof -
  have fl: "flagged k = (\<lambda>b. Filename (DefRange b) \<noteq> expectedFileFor k)"
    using assms(1) by (auto simp: fun_eq_iff)
  have ok: "\<forall>b \<in> set (Blocks content). flagged k b \<longrightarrow> (\<exists>msg. message_for Quote k b = Inr msg)"
    using assms(1,3) by (auto simp: label_message_def slice_index_def)
  from issue_loop_locations [OF ok, where s = s] assms(2) show ?thesis
    by (simp add: check_for_generic fl)
qed

end
